theory Spec2Isabelle
  imports Main "HOL-Library.Char_ord" "HOL-Library.List_Lexorder" "HOL-Library.AList"
begin

section \<open>Python strings and dictionaries\<close>

text \<open>
  Strings are \<^typ>\<open>string\<close>: a character is a code point below 256 (ASCII and Latin-1),
  the length of a string is its number of code points, and the lexicographic order of
  \<^theory_text>\<open>List_Lexorder\<close> is the order Python's \<^verbatim>\<open>sorted\<close> uses on \<^verbatim>\<open>str\<close>. The type
  has no string with a code point from 256 on.
\<close>

text \<open>
  \<^verbatim>\<open>str.lower\<close> on these code points: a capital letter, that is \<^verbatim>\<open>A\<close> to \<^verbatim>\<open>Z\<close> and
  \<^verbatim>\<open>U+00C0\<close> to \<^verbatim>\<open>U+00DE\<close> without the multiplication sign \<^verbatim>\<open>U+00D7\<close>, gets bit 5 set
  (its code plus 32); any other character stays.
\<close>

definition lower_char :: "char \<Rightarrow> char" where
  "lower_char c =
     (if (CHR ''A'' \<le> c \<and> c \<le> CHR ''Z'')
         \<or> (CHR 0xC0 \<le> c \<and> c \<le> CHR 0xDE \<and> c \<noteq> CHR 0xD7)
      then (case c of Char b0 b1 b2 b3 b4 b5 b6 b7 \<Rightarrow> Char b0 b1 b2 b3 b4 True b6 b7)
      else c)"

definition lower :: "string \<Rightarrow> string" where
  "lower s = map lower_char s"

text \<open>
  \<^verbatim>\<open>str.isspace\<close> on these code points: TAB, LF, VT, FF, CR, FS, GS, RS, US, the space,
  NEL (\<^verbatim>\<open>U+0085\<close>) and the no-break space (\<^verbatim>\<open>U+00A0\<close>).
\<close>

definition isspace :: "char \<Rightarrow> bool" where
  "isspace c =
     (let n = (of_char c :: nat)
      in (9 \<le> n \<and> n \<le> 13) \<or> (28 \<le> n \<and> n \<le> 32) \<or> n = 133 \<or> n = 160)"

definition strip :: "string \<Rightarrow> string" where
  "strip s = rev (dropWhile isspace (rev (dropWhile isspace s)))"

text \<open>\<^verbatim>\<open>'%-12s' % s\<close>: left-justified in a field of at least twelve characters.\<close>

definition ljust :: "nat \<Rightarrow> string \<Rightarrow> string" where
  "ljust n s = s @ replicate (n - length s) CHR '' ''"

text \<open>\<^verbatim>\<open>s.replace("\n", " ")\<close>.\<close>

definition replace_newlines :: "string \<Rightarrow> string" where
  "replace_newlines s = map (\<lambda>c. if c = CHR 0x0A then CHR '' '' else c) s"

text \<open>
  A \<^verbatim>\<open>dict\<close> keeps insertion order: it is an association list with distinct keys.
  Assigning to a key that is present replaces the value in place, a new key goes to the
  end, and \<^verbatim>\<open>del\<close> removes the entry.
\<close>

type_synonym 'v dict = "(string \<times> 'v) list"

definition dict_keys :: "'v dict \<Rightarrow> string list" where
  "dict_keys d = map fst d"

definition dict_get :: "'v dict \<Rightarrow> string \<Rightarrow> 'v option" where
  "dict_get d k = map_of d k"

definition dict_set :: "'v dict \<Rightarrow> string \<Rightarrow> 'v \<Rightarrow> 'v dict" where
  "dict_set d k v = AList.update k v d"

definition dict_del :: "'v dict \<Rightarrow> string \<Rightarrow> 'v dict" where
  "dict_del d k = AList.delete k d"

text \<open>\<^verbatim>\<open>d.update(e)\<close>: the entries of \<open>e\<close> are assigned in their order.\<close>

definition dict_update :: "'v dict \<Rightarrow> 'v dict \<Rightarrow> 'v dict" where
  "dict_update d e = fold (\<lambda>(k, v) acc. dict_set acc k v) e d"

text \<open>\<^verbatim>\<open>xs.index(x)\<close>, with \<open>None\<close> where Python raises \<^verbatim>\<open>ValueError\<close>.\<close>

fun index :: "'a list \<Rightarrow> 'a \<Rightarrow> nat option" where
  "index [] x = None"
| "index (y # ys) x = (if y = x then Some 0 else map_option Suc (index ys x))"

section \<open>Exceptions\<close>

datatype exn =
    ValueError string
  | KeyError string
  | RuntimeError string
  | OtherError string

section \<open>The shell resolver\<close>

text \<open>
  A shell factory is a callable of an abstract type \<open>'f\<close> (never Python's \<^verbatim>\<open>None\<close>).
  \<^verbatim>\<open>find_all_shells\<close> (lines 228--236) fills a dictionary from the entry points of
  the group \<^verbatim>\<open>pyramid.pshell_runner\<close>, given as the list of pairs of \<^verbatim>\<open>ep.name\<close> and
  \<^verbatim>\<open>ep.load()\<close>.
\<close>

definition find_all_shells :: "(string \<times> 'f) list \<Rightarrow> 'f dict" where
  "find_all_shells iter_entry_points =
     fold (\<lambda>(name, shell_factory) shells. dict_set shells name shell_factory)
       iter_entry_points []"

text \<open>
  The sort key \<^verbatim>\<open>order\<close> of lines 251--257: the position in the preference list minus
  its length (a negative number), and 1 when \<^verbatim>\<open>index\<close> raises.
\<close>

definition order :: "string list \<Rightarrow> string \<times> 'f \<Rightarrow> int" where
  "order preferred_shells x =
     (case index preferred_shells (lower (fst x)) of
        Some i \<Rightarrow> int i - int (length preferred_shells)
      | None \<Rightarrow> 1)"

text \<open>
  \<^verbatim>\<open>make_shell\<close> (lines 238--279) as a function of the fields of \<^verbatim>\<open>self\<close> it reads:
  \<^verbatim>\<open>args.python_shell\<close>, \<^verbatim>\<open>preferred_shells\<close>, \<^verbatim>\<open>default_runner\<close>, and of what
  \<^verbatim>\<open>find_all_shells\<close> returns. Python's \<^verbatim>\<open>sorted\<close> is stable, as \<^const>\<open>sort_key\<close> is.
\<close>

definition make_shell ::
  "string \<Rightarrow> string list \<Rightarrow> 'f \<Rightarrow> 'f dict \<Rightarrow> exn + 'f" where
  "make_shell python_shell preferred_shells0 default_runner shells =
     (let user_shell = lower python_shell in
      if user_shell = [] then
        (let preferred_shells =
               (if preferred_shells0 = []
                then filter (\<lambda>k. k \<noteq> ''python'') (dict_keys shells)
                else preferred_shells0);
             sorted_shells = sort_key (order preferred_shells) shells
         in case sorted_shells of
              [] \<Rightarrow> Inr default_runner
            | x # _ \<Rightarrow> Inr (snd x))
      else
        (case dict_get shells user_shell of
           Some runner \<Rightarrow> Inr runner
         | None \<Rightarrow>
             Inl (ValueError
               (''could not find a shell named '' @ [CHR 0x22] @ user_shell @ [CHR 0x22]))))"

section \<open>Objects, the command object and its collaborators\<close>

text \<open>
  An object is an address; \<^verbatim>\<open>is\<close> compares addresses. The attributes the help
  generation reads (lines 192--203) are \<^verbatim>\<open>__doc__\<close>, a string or absent, and the result
  of \<^verbatim>\<open>str\<close>; they are read in one place, after the setup hook has been entered, so one
  table of attributes, as of that moment, is enough.
\<close>

type_synonym addr = nat

record pyobj =
  obj_doc :: "string option"
  obj_str :: string

text \<open>A value that is a string of the configuration or an object.\<close>

datatype pyval = Str string | Obj addr

text \<open>An entry of \<^verbatim>\<open>env_help\<close>: a description, or the object itself (line 160, line 195).\<close>

datatype helpval = Text string | Object addr

text \<open>
  A context manager: what entering it does to the environment, and which exception
  leaves the \<^verbatim>\<open>with\<close> block, given the one raised in its body (\<open>None\<close>: none).
\<close>

record manager =
  mgr_enter :: "addr dict \<Rightarrow> exn + addr dict"
  mgr_exit :: "exn option \<Rightarrow> exn option"

text \<open>
  The collaborators, as the results of their calls: the plugin registry, the argument
  and configuration loaders (\<open>Some e\<close>, \<open>Inl e\<close>: the call raises \<open>e\<close>), the
  dotted-name resolver, \<^verbatim>\<open>bootstrap\<close>, the objects' attributes, the context manager made
  of a setup value, the shell and closer calls, and the file system and \<^verbatim>\<open>exec\<close>.
\<close>

record 'f world =
  iter_entry_points :: "(string \<times> 'f) list"
  parse_vars :: "exn option"
  get_config_loader :: "exn option"
  setup_logging :: "exn option"
  get_settings :: "exn + string dict"
  aslist :: "string \<Rightarrow> string list"
  resolve :: "string \<Rightarrow> exn + addr"
  bootstrap :: "exn + addr dict"
  heap :: "addr \<Rightarrow> pyobj"
  manager_of :: "pyval \<Rightarrow> manager"
  call_shell :: "'f \<Rightarrow> addr dict \<Rightarrow> string \<Rightarrow> exn option"
  call_closer :: "addr \<Rightarrow> exn option"
  isfile :: "string \<Rightarrow> bool"
  read_file :: "string \<Rightarrow> exn + string"
  exec :: "string \<Rightarrow> addr dict \<Rightarrow> exn + addr dict"

text \<open>
  The attributes of a \<^verbatim>\<open>PShellCommand\<close> (lines 93--104 and those \<^verbatim>\<open>run\<close> sets): an
  attribute read through \<^verbatim>\<open>self\<close> is the instance's once assigned, the class's before.
\<close>

record 'f cmd =
  quiet :: bool
  args_python_shell :: string
  args_list :: bool
  args_setup :: "string option"
  args_config_uri :: "string option"
  default_runner :: 'f
  loaded_objects :: "addr dict"
  object_help :: "string dict"
  preferred_shells :: "string list"
  setup_hook :: "pyval option"
  pystartup :: "string option"
  env :: "addr dict"
  closer :: "addr option"
  help_text :: string

text \<open>
  The attributes \<^verbatim>\<open>setup\<close> and \<^verbatim>\<open>help\<close> are the fields \<open>setup_hook\<close> and \<open>help_text\<close>.
  A new command (lines 95--104): the parsed arguments, and the class-level values of
  the other attributes. \<^verbatim>\<open>env\<close>, \<^verbatim>\<open>closer\<close> and \<^verbatim>\<open>help\<close> do not exist before \<^verbatim>\<open>run\<close>.
\<close>

definition PShellCommand ::
  "bool \<Rightarrow> string \<Rightarrow> bool \<Rightarrow> string option \<Rightarrow> string option \<Rightarrow> 'f \<Rightarrow> string option
     \<Rightarrow> 'f cmd" where
  "PShellCommand q python_shell lst stp config_uri runner startup =
     \<lparr> quiet = q, args_python_shell = python_shell, args_list = lst, args_setup = stp,
       args_config_uri = config_uri, default_runner = runner,
       loaded_objects = [], object_help = [], preferred_shells = [], setup_hook = None,
       pystartup = startup, env = [], closer = None, help_text = [] \<rparr>"

text \<open>Truth values of an optional string and of a setup value.\<close>

definition truthy_str :: "string option \<Rightarrow> bool" where
  "truthy_str s = (case s of None \<Rightarrow> False | Some t \<Rightarrow> t \<noteq> [])"

definition truthy :: "pyval option \<Rightarrow> bool" where
  "truthy v = (case v of None \<Rightarrow> False | Some (Str t) \<Rightarrow> t \<noteq> [] | Some (Obj a) \<Rightarrow> True)"

text \<open>
  Modelled from the spec: \<^verbatim>\<open>DottedNameResolver.maybe_resolve\<close> of \<^verbatim>\<open>pyramid.util\<close>,
  which ``accepts either an already-resolved object or a dotted path string''.
\<close>

definition maybe_resolve :: "'f world \<Rightarrow> pyval \<Rightarrow> exn + addr" where
  "maybe_resolve w v = (case v of Str s \<Rightarrow> resolve w s | Obj a \<Rightarrow> Inr a)"

text \<open>
  Modelled from the spec: \<^verbatim>\<open>make_contextmanager\<close> of \<^verbatim>\<open>pyramid.util\<close>; the setup
  hook is optional, and without one the scoped context does nothing.
\<close>

definition noop_manager :: manager where
  "noop_manager = \<lparr> mgr_enter = (\<lambda>e. Inr e), mgr_exit = (\<lambda>x. x) \<rparr>"

definition make_contextmanager :: "'f world \<Rightarrow> pyval option \<Rightarrow> manager" where
  "make_contextmanager w fn = (case fn of None \<Rightarrow> noop_manager | Some v \<Rightarrow> manager_of w v)"

section \<open>Reading the configuration\<close>

text \<open>The loop of \<^verbatim>\<open>pshell_file_config\<close> (lines 111--118); it stops where the resolver raises.\<close>

fun config_items :: "'f world \<Rightarrow> string dict \<Rightarrow> 'f cmd \<Rightarrow> exn option \<times> 'f cmd" where
  "config_items w [] c = (None, c)"
| "config_items w ((k, v) # settings) c =
     (if k = ''setup'' then config_items w settings (c\<lparr>setup_hook := Some (Str v)\<rparr>)
      else if k = ''default_shell'' then
        config_items w settings (c\<lparr>preferred_shells := map lower (aslist w v)\<rparr>)
      else
        (case maybe_resolve w (Str v) of
           Inl e \<Rightarrow> (Some e, c)
         | Inr a \<Rightarrow>
             config_items w settings
               (c\<lparr>loaded_objects := dict_set (loaded_objects c) k a,
                  object_help := dict_set (object_help c) k v\<rparr>)))"

text \<open>
  \<^verbatim>\<open>pshell_file_config\<close> from line 108 on, given the \<open>settings\<close> that
  \<^verbatim>\<open>loader.get_settings\<close> returned at line 107.
\<close>

definition pshell_file_config :: "'f world \<Rightarrow> string dict \<Rightarrow> 'f cmd \<Rightarrow> exn option \<times> 'f cmd" where
  "pshell_file_config w settings c =
     config_items w settings (c\<lparr>loaded_objects := [], object_help := [], setup_hook := None\<rparr>)"

section \<open>The environment builder\<close>

text \<open>Lines 160--167: a copy of the environment, then the five fixed descriptions.\<close>

definition seed_help :: "addr dict \<Rightarrow> helpval dict" where
  "seed_help e =
     (let env_help = map (\<lambda>(k, v). (k, Object v)) e;
          env_help = dict_set env_help ''app'' (Text ''The WSGI application.'');
          env_help = dict_set env_help ''root'' (Text ''Root of the default resource tree.'');
          env_help = dict_set env_help ''registry'' (Text ''Active Pyramid registry.'');
          env_help = dict_set env_help ''request'' (Text ''Active request object.'');
          env_help = dict_set env_help ''root_factory''
            (Text (''Default root factory used to create '' @ [CHR 0x60] @ ''root''
                   @ [CHR 0x60] @ ''.''))
      in env_help)"

text \<open>Lines 173--175.\<close>

definition drop_custom_help :: "addr dict \<Rightarrow> helpval dict \<Rightarrow> helpval dict" where
  "drop_custom_help loaded env_help =
     fold (\<lambda>k eh. if k \<in> set (dict_keys eh) then dict_del eh k else eh)
       (dict_keys loaded) env_help"

text \<open>
  Lines 190--195. \<^verbatim>\<open>getattr(v, '__doc__', False)\<close> is true of a non-empty string;
  \<^verbatim>\<open>k not in orig_env or v is not orig_env[k]\<close> is that \<open>orig_env\<close> does not bind \<open>k\<close>
  to the address \<open>v\<close>.
\<close>

definition doc_help :: "(addr \<Rightarrow> pyobj) \<Rightarrow> addr \<Rightarrow> helpval" where
  "doc_help hp v =
     (case obj_doc (hp v) of
        Some d \<Rightarrow> if d \<noteq> [] then Text (replace_newlines d) else Object v
      | None \<Rightarrow> Object v)"

definition reconcile_help ::
  "addr dict \<Rightarrow> (addr \<Rightarrow> pyobj) \<Rightarrow> addr dict \<Rightarrow> helpval dict \<Rightarrow> helpval dict" where
  "reconcile_help orig_env hp e env_help =
     fold (\<lambda>(k, v) eh. if dict_get orig_env k \<noteq> Some v then dict_set eh k (doc_help hp v) else eh)
       e env_help"

text \<open>Lines 199--208. \<^verbatim>\<open>%s\<close> prints a description as it is and an object by \<^verbatim>\<open>str\<close>.\<close>

definition str_help :: "(addr \<Rightarrow> pyobj) \<Rightarrow> helpval \<Rightarrow> string" where
  "str_help hp hv = (case hv of Text s \<Rightarrow> s | Object a \<Rightarrow> obj_str (hp a))"

definition help_line :: "string \<times> string \<Rightarrow> string" where
  "help_line x = [CHR 0x0A] @ ''  '' @ ljust 12 (fst x) @ '' '' @ snd x"

text \<open>The lines of one section: the sorted keys, each with its printed value.\<close>

definition section_entries :: "('v \<Rightarrow> string) \<Rightarrow> 'v dict \<Rightarrow> (string \<times> string) list" where
  "section_entries str d =
     concat (map (\<lambda>var. case dict_get d var of Some v \<Rightarrow> [(var, str v)] | None \<Rightarrow> [])
               (sort (dict_keys d)))"

definition gen_help :: "(addr \<Rightarrow> pyobj) \<Rightarrow> helpval dict \<Rightarrow> string dict \<Rightarrow> string" where
  "gen_help hp env_help obj_help =
     (let h = [];
          h = (if env_help \<noteq> []
               then h @ ''Environment:''
                      @ concat (map help_line (section_entries (str_help hp) env_help))
               else h);
          h = (if obj_help \<noteq> []
               then h @ [CHR 0x0A, CHR 0x0A] @ ''Custom Variables:''
                      @ concat (map help_line (section_entries (\<lambda>s. s) obj_help))
               else h)
      in h)"

text \<open>Lines 210--214.\<close>

definition run_pystartup :: "'f world \<Rightarrow> string option \<Rightarrow> addr dict \<Rightarrow> exn + addr dict" where
  "run_pystartup w startup e =
     (case startup of
        None \<Rightarrow> Inr e
      | Some p \<Rightarrow>
          if p \<noteq> [] \<and> isfile w p then
            (case read_file w p of
               Inl x \<Rightarrow> Inl x
             | Inr code \<Rightarrow>
                 (case exec w code e of
                    Inl x \<Rightarrow> Inl x
                  | Inr e' \<Rightarrow>
                      Inr (if ''__builtins__'' \<in> set (dict_keys e')
                           then dict_del e' ''__builtins__'' else e')))
          else Inr e)"

text \<open>
  Lines 181--183: a setup value that is true is resolved, an object being what the
  resolver returns; \<^verbatim>\<open>None\<close> and the empty string stay.
\<close>

definition resolve_setup :: "'f world \<Rightarrow> pyval option \<Rightarrow> exn + pyval option" where
  "resolve_setup w s =
     (case s of
        None \<Rightarrow> Inr None
      | Some v \<Rightarrow>
          if truthy (Some v)
          then (case maybe_resolve w v of Inl x \<Rightarrow> Inl x | Inr a \<Rightarrow> Inr (Some (Obj a)))
          else Inr (Some v))"

text \<open>
  \<^verbatim>\<open>setup_env\<close> (lines 156--217) up to its \<^verbatim>\<open>yield\<close>: the command with \<^verbatim>\<open>env\<close>,
  \<^verbatim>\<open>setup\<close> and \<^verbatim>\<open>help\<close> set, and the setup manager that is still to be left. An
  exception in the body of \<^verbatim>\<open>with setup_manager(env)\<close> passes through the manager's exit;
  if that swallows it, the generator ends without a \<^verbatim>\<open>yield\<close> and \<^verbatim>\<open>contextlib\<close>
  raises \<^verbatim>\<open>RuntimeError\<close>.
\<close>

definition setup_env :: "'f world \<Rightarrow> 'f cmd \<Rightarrow> exn + ('f cmd \<times> manager)" where
  "setup_env w c =
     (let env_help = seed_help (env c);
          e1 = dict_update (env c) (loaded_objects c);
          env_help = drop_custom_help (loaded_objects c) env_help;
          setup1 = (if truthy_str (args_setup c) then map_option Str (args_setup c)
                    else setup_hook c)
      in case resolve_setup w setup1 of
           Inl x \<Rightarrow> Inl x
         | Inr setup2 \<Rightarrow>
             (let orig_env = e1;
                  setup_manager = make_contextmanager w setup2
              in case mgr_enter setup_manager e1 of
                   Inl x \<Rightarrow> Inl x
                 | Inr e2 \<Rightarrow>
                     (let env_help = reconcile_help orig_env (heap w) e2 env_help;
                          h = gen_help (heap w) env_help (object_help c)
                      in case run_pystartup w (pystartup c) e2 of
                           Inl x \<Rightarrow>
                             Inl (case mgr_exit setup_manager (Some x) of
                                    Some x' \<Rightarrow> x'
                                  | None \<Rightarrow> RuntimeError (''generator didn'' @ [CHR 0x27] @ ''t yield''))
                         | Inr e3 \<Rightarrow>
                             Inr (c\<lparr>env := e3, setup_hook := setup2, help_text := strip h\<rparr>,
                                  setup_manager))))"

section \<open>The run\<close>

text \<open>
  What a run does to the outside, in order: the lines it prints, the return of
  \<^verbatim>\<open>bootstrap\<close>, the call of the shell with its arguments, the call of the closer.
\<close>

datatype 'f event =
    Out string
  | Bootstrapped
  | Shell_invoked 'f "addr dict" string
  | Closer_invoked addr

datatype outcome = Returned "int option" | Raised exn

definition out :: "'f cmd \<Rightarrow> string \<Rightarrow> 'f event list" where
  "out c msg = (if quiet c then [] else [Out msg])"

text \<open>Lines 219--226.\<close>

definition show_shells :: "'f world \<Rightarrow> 'f cmd \<Rightarrow> outcome \<times> 'f event list" where
  "show_shells w c =
     (let shells = find_all_shells (iter_entry_points w);
          sorted_names = sort_key lower (dict_keys shells)
      in (Returned (Some 0),
          out c ''Available shells:'' @ concat (map (\<lambda>name. out c (''  '' @ name)) sorted_names)))"

text \<open>The body of the \<^verbatim>\<open>try\<close> (lines 143--151).\<close>

definition run_try :: "'f world \<Rightarrow> 'f cmd \<Rightarrow> 'f option \<Rightarrow> outcome \<times> 'f event list" where
  "run_try w c shell =
     (case (case shell of
              Some s \<Rightarrow> Inr s
            | None \<Rightarrow>
                make_shell (args_python_shell c) (preferred_shells c) (default_runner c)
                  (find_all_shells (iter_entry_points w))) of
        Inl (ValueError msg) \<Rightarrow> (Returned (Some 1), out c msg)
      | Inl x \<Rightarrow> (Raised x, [])
      | Inr sh \<Rightarrow>
          (case setup_env w c of
             Inl x \<Rightarrow> (Raised x, [])
           | Inr (c', setup_manager) \<Rightarrow>
               (case mgr_exit setup_manager (call_shell w sh (env c') (help_text c')) of
                  None \<Rightarrow> (Returned None, [Shell_invoked sh (env c') (help_text c')])
                | Some x \<Rightarrow> (Raised x, [Shell_invoked sh (env c') (help_text c')]))))"

text \<open>
  Lines 139--154, given the environment that \<^verbatim>\<open>bootstrap\<close> returned: the closer is
  popped, the \<^verbatim>\<open>try\<close> runs, and \<^verbatim>\<open>finally\<close> calls the closer, whose exception, if any,
  replaces the outcome.
\<close>

definition run_bootstrapped ::
  "'f world \<Rightarrow> 'f cmd \<Rightarrow> 'f option \<Rightarrow> addr dict \<Rightarrow> outcome \<times> 'f event list" where
  "run_bootstrapped w c shell e0 =
     (case dict_get e0 ''closer'' of
        None \<Rightarrow> (Raised (KeyError ''closer''), [])
      | Some cl \<Rightarrow>
          (let r = run_try w (c\<lparr>env := dict_del e0 ''closer'', closer := Some cl\<rparr>) shell
           in (case call_closer w cl of Some x \<Rightarrow> Raised x | None \<Rightarrow> fst r,
               snd r @ [Closer_invoked cl])))"

text \<open>\<^verbatim>\<open>run\<close> (lines 124--154).\<close>

definition run :: "'f world \<Rightarrow> 'f cmd \<Rightarrow> 'f option \<Rightarrow> outcome \<times> 'f event list" where
  "run w c shell =
     (if args_list c then show_shells w c
      else if \<not> truthy_str (args_config_uri c) then
        (Returned (Some 2), out c ''Requires a config file argument'')
      else
        (case parse_vars w of
           Some x \<Rightarrow> (Raised x, [])
         | None \<Rightarrow>
        (case get_config_loader w of
           Some x \<Rightarrow> (Raised x, [])
         | None \<Rightarrow>
        (case setup_logging w of
           Some x \<Rightarrow> (Raised x, [])
         | None \<Rightarrow>
        (case get_settings w of
           Inl x \<Rightarrow> (Raised x, [])
         | Inr settings \<Rightarrow>
        (case pshell_file_config w settings c of
           (Some x, c1) \<Rightarrow> (Raised x, [])
         | (None, c1) \<Rightarrow>
        (case bootstrap w of
           Inl x \<Rightarrow> (Raised x, [])
         | Inr e0 \<Rightarrow>
             (let r = run_bootstrapped w c1 shell e0
              in (fst r, Bootstrapped # snd r)))))))))"


section \<open>Whitespace normalisation as the specification words it\<close>

text \<open>
  A string ``whitespace-normalized to a single line'': its words, the maximal runs of
  characters that are not whitespace, joined by single spaces (Python's
  \<^verbatim>\<open>" ".join(s.split())\<close>). It is what the specification says of a documentation string
  in the help, to be compared with \<^const>\<open>replace_newlines\<close>, which is what the code does.
\<close>

fun split_words :: "string \<Rightarrow> string \<Rightarrow> string list" where
  "split_words w [] = (if w = [] then [] else [w])"
| "split_words w (ch # s) =
     (if isspace ch then (if w = [] then split_words [] s else w # split_words [] s)
      else split_words (w @ [ch]) s)"

definition normalize_whitespace :: "string \<Rightarrow> string" where
  "normalize_whitespace s =
     (case split_words [] s of
        [] \<Rightarrow> []
      | x # xs \<Rightarrow> x @ concat (map (\<lambda>y. CHR '' '' # y) xs))"

section \<open>What a run is observed to do, and example inputs\<close>

text \<open>The closers called in a trace, in order.\<close>

definition closer_calls :: "'f event list \<Rightarrow> addr list" where
  "closer_calls tr = concat (map (\<lambda>ev. case ev of Closer_invoked a \<Rightarrow> [a] | _ \<Rightarrow> []) tr)"

text \<open>
  The help text for the five seeded variables alone, and the one shown when a custom
  object \<^verbatim>\<open>root\<close> is configured and the setup hook binds \<^verbatim>\<open>root\<close> anew.
\<close>

definition default_help :: string where
  "default_help =
     ''Environment:'' @ [CHR 0x0A] @
     ''  app          The WSGI application.'' @ [CHR 0x0A] @
     ''  registry     Active Pyramid registry.'' @ [CHR 0x0A] @
     ''  request      Active request object.'' @ [CHR 0x0A] @
     ''  root         Root of the default resource tree.'' @ [CHR 0x0A] @
     ''  root_factory Default root factory used to create '' @ [CHR 0x60] @ ''root'' @ [CHR 0x60] @ ''.''"


text \<open>
  The help text shown when the setup hook binds \<^verbatim>\<open>root\<close> to an object whose
  documentation string has an indented second line, and \<^verbatim>\<open>extra\<close> to an object whose
  documentation string is empty.
\<close>

definition indented_help :: string where
  "indented_help =
     ''Environment:'' @ [CHR 0x0A] @
     ''  app          The WSGI application.'' @ [CHR 0x0A] @
     ''  extra        <Extra object>'' @ [CHR 0x0A] @
     ''  registry     Active Pyramid registry.'' @ [CHR 0x0A] @
     ''  request      Active request object.'' @ [CHR 0x0A] @
     ''  root         Root object.     Second line.'' @ [CHR 0x0A] @
     ''  root_factory Default root factory used to create '' @ [CHR 0x60] @ ''root'' @ [CHR 0x60] @ ''.''"

text \<open>
  An example installation: two registered shells, a resolver that knows
  \<^verbatim>\<open>mypkg.root\<close> and \<^verbatim>\<open>mypkg.hook\<close>, a bootstrap environment with \<^verbatim>\<open>app\<close>, \<^verbatim>\<open>root\<close> and
  the closer, a setup hook that binds \<^verbatim>\<open>root\<close> to a documented object, one startup file,
  and a command started as \<^verbatim>\<open>pshell development.ini\<close>.
\<close>

definition example_heap :: "addr \<Rightarrow> pyobj" where
  "example_heap a =
     (if a = 3 then \<lparr> obj_doc = Some (''A replacement'' @ [CHR 0x0A] @ ''root.''), obj_str = ''<Root>'' \<rparr>
      else if a = 6 then
        \<lparr> obj_doc = Some (''Root object.'' @ [CHR 0x0A] @ ''    Second line.''),
          obj_str = ''<Root object>'' \<rparr>
      else if a = 13 then \<lparr> obj_doc = Some [], obj_str = ''<Extra object>'' \<rparr>
      else \<lparr> obj_doc = None, obj_str = ''<object>'' \<rparr>)"

definition example_hook :: manager where
  "example_hook = \<lparr> mgr_enter = (\<lambda>e. Inr (dict_set e ''root'' 3)), mgr_exit = (\<lambda>x. x) \<rparr>"

text \<open>A second hook, which binds \<^verbatim>\<open>root\<close> and a new name \<^verbatim>\<open>extra\<close>.\<close>

definition indented_hook :: manager where
  "indented_hook =
     \<lparr> mgr_enter = (\<lambda>e. Inr (dict_set (dict_set e ''root'' 6) ''extra'' 13)),
       mgr_exit = (\<lambda>x. x) \<rparr>"

definition example_world :: "nat world" where
  "example_world =
     \<lparr> iter_entry_points = [(''python'', 10), (''ipython'', 11)],
       parse_vars = None, get_config_loader = None, setup_logging = None,
       get_settings = Inr [],
       aslist = (\<lambda>s. [s]),
       resolve = (\<lambda>s. if s = ''mypkg.root'' then Inr 7
                      else if s = ''mypkg.hook'' then Inr 8
                      else Inl (OtherError ''ImportError'')),
       bootstrap = Inr [(''app'', 5), (''root'', 2), (''closer'', 9)],
       heap = example_heap,
       manager_of = (\<lambda>v. example_hook),
       call_shell = (\<lambda>f e h. None),
       call_closer = (\<lambda>a. None),
       isfile = (\<lambda>p. p = ''/home/user/.pythonrc''),
       read_file = (\<lambda>p. Inr ''import os''),
       exec = (\<lambda>code e. Inr (dict_set e ''__builtins__'' 4)) \<rparr>"

definition example_command :: "nat cmd" where
  "example_command = PShellCommand False [] False None (Some ''development.ini'') 12 None"

section \<open>Facts about lists and dictionaries\<close>

lemma index_less: "index xs x = Some i \<Longrightarrow> i < length xs"
  by (induction xs arbitrary: i) (auto split: if_splits)

lemma index_nth: "index xs x = Some i \<Longrightarrow> xs ! i = x"
  by (induction xs arbitrary: i) (auto split: if_splits)

lemma index_None: "index xs x = None \<longleftrightarrow> x \<notin> set xs"
  by (induction xs) auto

lemma index_hd: "xs \<noteq> [] \<Longrightarrow> index xs (hd xs) = Some 0"
  by (cases xs) auto

lemma index_zero: "index xs x = Some 0 \<Longrightarrow> x = hd xs"
  by (cases xs) (auto split: if_splits)

lemma order_lower_bound: "- int (length prefs) \<le> order prefs x"
  by (auto simp: order_def split: option.splits dest: index_less)

lemma order_least_iff:
  "prefs \<noteq> [] \<Longrightarrow> order prefs x = - int (length prefs) \<longleftrightarrow> lower (fst x) = hd prefs"
  by (cases prefs) (auto simp: order_def split: option.splits if_splits)

lemma hd_insort_key:
  "hd (insort_key f x ys) = (if ys = [] \<or> f x \<le> f (hd ys) then x else hd ys)"
  by (cases ys) auto

lemma sort_key_not_Nil: "xs \<noteq> [] \<Longrightarrow> sort_key f xs \<noteq> []"
  by (metis length_sort length_0_conv)

lemma hd_sort_key_first_min:
  "xs \<noteq> [] \<Longrightarrow>
   \<exists>i<length xs. hd (sort_key f xs) = xs ! i
      \<and> (\<forall>j<length xs. f (xs ! i) \<le> f (xs ! j))
      \<and> (\<forall>j<i. f (xs ! i) < f (xs ! j))"
proof (induction xs)
  case Nil
  then show ?case by simp
next
  case (Cons x xs)
  show ?case
  proof (cases "xs = []")
    case True
    then show ?thesis by simp
  next
    case False
    from Cons.IH [OF False] obtain i where i: "i < length xs"
      "hd (sort_key f xs) = xs ! i" "\<forall>j<length xs. f (xs ! i) \<le> f (xs ! j)"
      "\<forall>j<i. f (xs ! i) < f (xs ! j)" by blast
    have ne: "sort_key f xs \<noteq> []" using False by (rule sort_key_not_Nil)
    show ?thesis
    proof (cases "f x \<le> f (xs ! i)")
      case True
      have "hd (sort_key f (x # xs)) = x"
        using True i(2) ne by (simp add: hd_insort_key)
      moreover have "\<forall>j<length (x # xs). f x \<le> f ((x # xs) ! j)"
        using True i(3) by (auto simp: nth_Cons split: nat.splits intro: order_trans)
      ultimately show ?thesis
        by (intro exI [of _ 0]) simp
    next
      case False
      have "hd (sort_key f (x # xs)) = xs ! i"
        using False i(2) ne by (simp add: hd_insort_key)
      moreover have "\<forall>j<length (x # xs). f (xs ! i) \<le> f ((x # xs) ! j)"
        using False i(3) by (auto simp: nth_Cons split: nat.splits)
      moreover have "\<forall>j<Suc i. f (xs ! i) < f ((x # xs) ! j)"
        using False i(4) by (auto simp: nth_Cons split: nat.splits)
      ultimately show ?thesis
        using i(1) by (intro exI [of _ "Suc i"]) simp
    qed
  qed
qed

lemma make_shell_first_least:
  assumes "lower N = []" and "shells \<noteq> []"
    and prefs: "prefs = (if P = [] then filter (\<lambda>k. k \<noteq> ''python'') (dict_keys shells) else P)"
  shows "\<exists>i<length shells.
           make_shell N P d shells = Inr (snd (shells ! i))
         \<and> (\<forall>j<length shells. order prefs (shells ! i) \<le> order prefs (shells ! j))
         \<and> (\<forall>j<i. order prefs (shells ! i) < order prefs (shells ! j))"
proof -
  from hd_sort_key_first_min [OF assms(2), of "order prefs"]
  obtain i where i: "i < length shells"
      "hd (sort_key (order prefs) shells) = shells ! i"
      "\<forall>j<length shells. order prefs (shells ! i) \<le> order prefs (shells ! j)"
      "\<forall>j<i. order prefs (shells ! i) < order prefs (shells ! j)" by blast
  have ne: "sort_key (order prefs) shells \<noteq> []"
    using assms(2) by (rule sort_key_not_Nil)
  have "make_shell N P d shells = Inr (snd (hd (sort_key (order prefs) shells)))"
    using assms(1) ne
    by (cases "sort_key (order prefs) shells")
       (simp_all add: make_shell_def prefs Let_def)
  with i show ?thesis
    by (intro exI [of _ i]) simp
qed

lemma make_shell_explicit_name:
  "lower N \<noteq> [] \<Longrightarrow>
   make_shell N P d shells =
     (case dict_get shells (lower N) of
        Some runner \<Rightarrow> Inr runner
      | None \<Rightarrow>
          Inl (ValueError (''could not find a shell named '' @ [CHR 0x22] @ lower N @ [CHR 0x22])))"
  by (simp add: make_shell_def Let_def)

lemma find_Some_hd_filter:
  "find P xs = Some x \<Longrightarrow> filter P xs \<noteq> [] \<and> hd (filter P xs) = x"
  by (induction xs) (auto split: if_splits)

lemma distinct_keys_eq:
  "distinct (dict_keys S) \<Longrightarrow> a \<in> set S \<Longrightarrow> b \<in> set S \<Longrightarrow> fst a = fst b \<Longrightarrow> a = b"
  unfolding dict_keys_def by (metis distinct_map inj_on_def)

lemma dict_get_mem:
  "distinct (dict_keys S) \<Longrightarrow> (k, v) \<in> set S \<Longrightarrow> dict_get S k = Some v"
  by (simp add: dict_keys_def dict_get_def)

lemma make_shell_default_first_other:
  assumes N: "lower N = []" and dist: "distinct (dict_keys S)"
    and low: "\<forall>k\<in>set (dict_keys S). lower k = k"
    and x: "find (\<lambda>x. fst x \<noteq> ''python'') S = Some x"
  shows "make_shell N [] d S = Inr (snd x)"
proof -
  define prefs where "prefs = filter (\<lambda>k. k \<noteq> ''python'') (dict_keys S)"
  from x have xS: "x \<in> set S" and ne: "S \<noteq> []"
    by (auto simp: find_Some_iff)
  have prefs: "prefs = map fst (filter (\<lambda>x. fst x \<noteq> ''python'') S)"
    by (simp add: prefs_def dict_keys_def filter_map comp_def)
  from find_Some_hd_filter [OF x] have pne: "prefs \<noteq> []" and hd: "hd prefs = fst x"
    by (simp_all add: prefs hd_map)
  from xS low have "lower (fst x) = fst x" by (auto simp: dict_keys_def)
  with pne hd have rx: "order prefs x = - int (length prefs)" by (simp add: order_least_iff)
  have p: "prefs = (if [] = [] then filter (\<lambda>k. k \<noteq> ''python'') (dict_keys S) else [])"
    by (simp add: prefs_def)
  from make_shell_first_least [OF N ne p, of d] obtain i where i: "i < length S"
    "make_shell N [] d S = Inr (snd (S ! i))"
    "\<forall>j<length S. order prefs (S ! i) \<le> order prefs (S ! j)" by blast
  from xS obtain j where j: "j < length S" "S ! j = x" by (auto simp: in_set_conv_nth)
  with i(3) have "order prefs (S ! i) \<le> order prefs x" by blast
  with rx order_lower_bound [of prefs "S ! i"]
  have "order prefs (S ! i) = - int (length prefs)" by simp
  with pne hd have "lower (fst (S ! i)) = fst x" by (simp add: order_least_iff)
  moreover from i(1) low have "lower (fst (S ! i)) = fst (S ! i)" by (simp add: dict_keys_def)
  ultimately have "S ! i = x"
    using distinct_keys_eq [OF dist _ xS] i(1) by simp
  with i(2) show ?thesis by simp
qed

lemma dict_get_set: "dict_get (dict_set d k v) k' = (if k' = k then Some v else dict_get d k')"
  by (simp add: dict_get_def dict_set_def update_conv')

lemma dict_keys_set:
  "dict_keys (dict_set d k v) = (if k \<in> set (dict_keys d) then dict_keys d else dict_keys d @ [k])"
  by (simp add: dict_keys_def dict_set_def update_keys)


lemma dict_keys_del: "dict_keys (dict_del d k) = removeAll k (dict_keys d)"
  by (simp add: dict_keys_def dict_del_def delete_keys)

lemma dict_get_None_iff: "dict_get d k = None \<longleftrightarrow> k \<notin> set (dict_keys d)"
  by (simp add: dict_get_def dict_keys_def map_of_eq_None_iff)

lemma dict_del_absent: "k \<notin> set (dict_keys d) \<Longrightarrow> dict_del d k = d"
  by (simp add: dict_keys_def dict_del_def)

lemma reconcile_help_Cons:
  "reconcile_help orig hp ((k, v) # e) eh =
     reconcile_help orig hp e
       (if dict_get orig k \<noteq> Some v then dict_set eh k (doc_help hp v) else eh)"
  by (simp add: reconcile_help_def)

lemma reconcile_help_get:
  "distinct (dict_keys e) \<Longrightarrow>
   dict_get (reconcile_help orig hp e eh) k =
     (case dict_get e k of
        Some v \<Rightarrow> if dict_get orig k \<noteq> Some v then Some (doc_help hp v) else dict_get eh k
      | None \<Rightarrow> dict_get eh k)"
proof (induction e arbitrary: eh)
  case Nil
  then show ?case by (simp add: reconcile_help_def dict_get_def)
next
  case (Cons x e)
  obtain k' v' where x: "x = (k', v')" by (cases x)
  from Cons.prems have d: "distinct (dict_keys e)" and nk: "k' \<notin> set (dict_keys e)"
    by (simp_all add: x dict_keys_def)
  from nk have none: "dict_get e k' = None" by (simp add: dict_get_None_iff)
  have hd: "dict_get ((k', v') # e) k = (if k = k' then Some v' else dict_get e k)"
    by (simp add: dict_get_def)
  show ?case
    unfolding x reconcile_help_Cons Cons.IH [OF d] hd
    by (cases "k = k'") (simp_all add: none dict_get_set split: option.splits)
qed

lemma reconcile_help_same: "distinct (dict_keys e) \<Longrightarrow> reconcile_help e hp e eh = eh"
proof -
  have "set e' \<subseteq> set e \<Longrightarrow> distinct (dict_keys e) \<Longrightarrow> reconcile_help e hp e' eh = eh" for e'
  proof (induction e' arbitrary: eh)
    case Nil
    then show ?case by (simp add: reconcile_help_def)
  next
    case (Cons x e')
    obtain k v where x: "x = (k, v)" by (cases x)
    with Cons.prems have "dict_get e k = Some v" by (simp add: dict_get_def dict_keys_def)
    with Cons show ?case by (simp add: x reconcile_help_Cons)
  qed
  then show "distinct (dict_keys e) \<Longrightarrow> reconcile_help e hp e eh = eh" by simp
qed

lemma replace_newlines_single_line: "CHR 0x0A \<notin> set (replace_newlines d)"
  by (auto simp: replace_newlines_def)








lemma two_keys:
  assumes "distinct (dict_keys e)" and "set (dict_keys e) = {a, b}" and "a \<noteq> b"
  shows "(\<exists>x y. e = [(a, x), (b, y)]) \<or> (\<exists>x y. e = [(b, y), (a, x)])"
proof -
  from assms have "length (dict_keys e) = 2"
    by (metis card_2_iff distinct_card)
  then have "length e = 2" by (simp add: dict_keys_def)
  then obtain p q where e: "e = [p, q]"
    by (metis (no_types, opaque_lifting) One_nat_def Suc_1 length_0_conv length_Suc_conv)
  with assms(2) have "{fst p, fst q} = {a, b}" by (simp add: dict_keys_def)
  then have "fst p = a \<and> fst q = b \<or> fst p = b \<and> fst q = a"
    by (auto simp: doubleton_eq_iff)
  with e show ?thesis by (metis prod.collapse)
qed

lemma seeded_help_text:
  "strip (gen_help hp (seed_help [(''app'', x), (''root'', y)]) []) = default_help"
  "strip (gen_help hp (seed_help [(''root'', y), (''app'', x)]) []) = default_help"
  by code_simp+

lemma seeded_names:
  "map fst (section_entries (str_help hp) (seed_help [(''app'', x), (''root'', y)]))
     = [''app'', ''registry'', ''request'', ''root'', ''root_factory'']"
  "map fst (section_entries (str_help hp) (seed_help [(''root'', y), (''app'', x)]))
     = [''app'', ''registry'', ''request'', ''root'', ''root_factory'']"
  by code_simp+

lemma drop_custom_help_Nil: "drop_custom_help [] eh = eh"
  by (simp add: drop_custom_help_def dict_keys_def)

lemma dict_update_Nil: "dict_update e [] = e"
  by (simp add: dict_update_def)

lemma setup_env_no_hook:
  assumes "distinct (dict_keys (env c))" and "loaded_objects c = []"
    and "\<not> truthy_str (args_setup c)" and "setup_hook c = None"
  shows "setup_env w c =
     (case run_pystartup w (pystartup c) (env c) of
        Inl x \<Rightarrow> Inl x
      | Inr e3 \<Rightarrow>
          Inr (c\<lparr>env := e3, setup_hook := None,
                 help_text := strip (gen_help (heap w) (seed_help (env c)) (object_help c))\<rparr>,
               noop_manager))"
  using assms
  by (simp add: setup_env_def resolve_setup_def Let_def make_contextmanager_def noop_manager_def
        dict_update_Nil drop_custom_help_Nil reconcile_help_same
        split: sum.splits)

lemma run_pystartup_absent: "\<not> isfile w p \<Longrightarrow> run_pystartup w (Some p) e = Inr e"
  by (simp add: run_pystartup_def)

lemma run_pystartup_present:
  "p \<noteq> [] \<Longrightarrow> isfile w p \<Longrightarrow> read_file w p = Inr code \<Longrightarrow> exec w code e = Inr e' \<Longrightarrow>
   run_pystartup w (Some p) e = Inr (dict_del e' ''__builtins__'')"
  by (simp add: run_pystartup_def dict_del_absent)

lemma run_pystartup_Inr:
  "run_pystartup w (Some p) e = Inr e3 \<Longrightarrow> p \<noteq> [] \<Longrightarrow> isfile w p \<Longrightarrow>
   \<exists>code e'. read_file w p = Inr code \<and> exec w code e = Inr e' \<and> e3 = dict_del e' ''__builtins__''"
  by (auto simp: run_pystartup_def dict_del_absent split: sum.splits if_splits)

lemma no_builtins: "''__builtins__'' \<notin> set (dict_keys (dict_del e ''__builtins__''))"
  by (simp add: dict_keys_del)

text \<open>What a successful \<^verbatim>\<open>setup_env\<close> has done.\<close>

lemma setup_env_Inr:
  assumes "setup_env w c = Inr (c', m)"
  shows "\<exists>e2. mgr_enter m (dict_update (env c) (loaded_objects c)) = Inr e2
      \<and> run_pystartup w (pystartup c) e2 = Inr (env c')
      \<and> help_text c' = strip (gen_help (heap w)
            (reconcile_help (dict_update (env c) (loaded_objects c)) (heap w) e2
               (drop_custom_help (loaded_objects c) (seed_help (env c))))
            (object_help c))"
  using assms
  by (auto simp: setup_env_def Let_def split: sum.splits if_splits)

lemma setup_env_startup_absent:
  assumes "pystartup c = Some p" and "\<not> isfile w p"
  shows "setup_env w c
     = map_sum (\<lambda>x. x) (\<lambda>r. ((fst r)\<lparr>pystartup := Some p\<rparr>, snd r))
         (setup_env w (c\<lparr>pystartup := None\<rparr>))"
proof -
  have r: "run_pystartup w (pystartup c) e = Inr e" for e
    using assms by (simp add: run_pystartup_absent)
  have n: "run_pystartup w None e = Inr e" for e
    by (simp add: run_pystartup_def)
  have c: "c\<lparr>pystartup := Some p\<rparr> = c" using assms(1) by simp
  show ?thesis
    by (simp add: setup_env_def Let_def r n assms(1) [symmetric] split: sum.splits)
qed

lemma closer_calls_append: "closer_calls (xs @ ys) = closer_calls xs @ closer_calls ys"
  by (simp add: closer_calls_def)

lemma closer_calls_out: "closer_calls (out c msg) = []"
  by (simp add: closer_calls_def out_def)

lemma run_try_closer_calls: "closer_calls (snd (run_try w c shell)) = []"
  by (simp add: run_try_def closer_calls_out split: sum.splits exn.splits option.splits prod.splits)
     (simp add: closer_calls_def)

lemma run_bootstrapped_trace:
  "dict_get e0 ''closer'' = Some cl \<Longrightarrow>
   snd (run_bootstrapped w c shell e0)
     = snd (run_try w (c\<lparr>env := dict_del e0 ''closer'', closer := Some cl\<rparr>) shell)
       @ [Closer_invoked cl]"
  by (simp add: run_bootstrapped_def Let_def)

lemma not_Bootstrapped_out: "Bootstrapped \<notin> set (out c msg)"
  by (simp add: out_def)

lemma not_Bootstrapped_show_shells: "Bootstrapped \<notin> set (snd (show_shells w c))"
  by (auto simp: show_shells_def Let_def out_def)

lemma run_reaches_bootstrap:
  assumes "Bootstrapped \<in> set (snd (run w c shell))" and "bootstrap w = Inr e0"
  shows "\<exists>c1. snd (run w c shell) = Bootstrapped # snd (run_bootstrapped w c1 shell e0)"
  using assms not_Bootstrapped_show_shells [of w c]
  by (auto simp: run_def Let_def out_def split: if_splits option.splits sum.splits prod.splits)

lemma setup_env_unresolved:
  assumes "(if truthy_str (args_setup c) then map_option Str (args_setup c) else setup_hook c)
             = Some (Str p)"
    and "p \<noteq> []" and "resolve w p = Inl x"
  shows "setup_env w c = Inl x"
  using assms by (simp add: setup_env_def resolve_setup_def Let_def truthy_def maybe_resolve_def)


section \<open>Claims about the shell resolver\<close>

text \<open>
  C1. The claim: an explicit shell name \<open>N\<close> that is present in the discovered shells,
  matched case-insensitively, resolves to the factory registered under it, whatever the
  preference list. The code lowers the name the user gave and looks the result up among
  the registered names as they are, so a shell registered as \<^verbatim>\<open>IPython\<close> is not found
  under any spelling, not even its own: \<^verbatim>\<open>make_shell\<close> raises \<^verbatim>\<open>ValueError\<close>. The
  path without an explicit name lowers the registered names (line 255) and does find it.
\<close>

theorem C1_capitalised_registration_not_found:
  "make_shell ''IPython'' P d (find_all_shells [(''IPython'', f)])
     = Inl (ValueError (''could not find a shell named '' @ [CHR 0x22] @ ''ipython'' @ [CHR 0x22]))
   \<and> make_shell [] [''ipython''] d (find_all_shells [(''python'', g), (''IPython'', f)]) = Inr f"
  by (simp add: make_shell_def find_all_shells_def dict_set_def dict_get_def lower_def
        lower_char_def order_def)

text \<open>
  C3. With no explicit name and no configured preference list, \<^verbatim>\<open>make_shell\<close> works with
  the list of all discovered names except \<^verbatim>\<open>python\<close>, in discovery order; for shells
  \<^verbatim>\<open>a\<close>, \<^verbatim>\<open>b\<close> and \<^verbatim>\<open>python\<close>, discovered in any order, the factory chosen is that of
  the first of \<^verbatim>\<open>a\<close> and \<^verbatim>\<open>b\<close> in discovery order, never that of \<^verbatim>\<open>python\<close>; when
  \<^verbatim>\<open>python\<close> is the only shell, it is chosen.
\<close>

theorem C3_default_prefers_other_shells:
  "make_shell N [] d shells
     = make_shell N (filter (\<lambda>k. k \<noteq> ''python'') (dict_keys shells)) d shells
   \<and> (distinct (dict_keys S) \<and> set (dict_keys S) = {''a'', ''b'', ''python'' }
        \<longrightarrow> (\<exists>x. find (\<lambda>x. fst x = ''a'' \<or> fst x = ''b'') S = Some x
                 \<and> make_shell [] [] d S = Inr (snd x) \<and> fst x \<noteq> ''python''))
   \<and> make_shell [] [] d [(''python'', f)] = Inr f"
proof (intro conjI impI)
  show "make_shell N [] d shells
     = make_shell N (filter (\<lambda>k. k \<noteq> ''python'') (dict_keys shells)) d shells"
    by (simp add: make_shell_def Let_def)
next
  assume S: "distinct (dict_keys S) \<and> set (dict_keys S) = {''a'', ''b'', ''python'' }"
  then have keys: "\<forall>x\<in>set S. fst x = ''a'' \<or> fst x = ''b'' \<or> fst x = ''python''"
    by (auto simp: dict_keys_def)
  have eq: "find (\<lambda>x. fst x = ''a'' \<or> fst x = ''b'') S = find (\<lambda>x. fst x \<noteq> ''python'') S"
    using keys by (intro find_cong) auto
  from S have "''a'' \<in> fst ` set S" by (auto simp: dict_keys_def)
  then obtain x where x: "find (\<lambda>x. fst x \<noteq> ''python'') S = Some x"
    by (cases "find (\<lambda>x. fst x \<noteq> ''python'') S") (auto simp: find_None_iff)
  then have xp: "fst x \<noteq> ''python''" by (auto simp: find_Some_iff)
  have "lower ''a'' = ''a''" "lower ''b'' = ''b''" "lower ''python'' = ''python''"
    by (simp_all add: lower_def lower_char_def)
  with S have low: "\<forall>k\<in>set (dict_keys S). lower k = k"
    by auto
  have "make_shell [] [] d S = Inr (snd x)"
    using S low x by (intro make_shell_default_first_other) (simp_all add: lower_def)
  with x xp eq show "\<exists>x. find (\<lambda>x. fst x = ''a'' \<or> fst x = ''b'') S = Some x
                 \<and> make_shell [] [] d S = Inr (snd x) \<and> fst x \<noteq> ''python''"
    by simp
next
  show "make_shell [] [] d [(''python'', f)] = Inr f"
    by (simp add: make_shell_def lower_def dict_keys_def)
qed

theorem C3_default_prefers_other_shells_witness:
  "distinct (dict_keys [(''python'', 0::nat), (''b'', 1), (''a'', 2)])
   \<and> set (dict_keys [(''python'', 0::nat), (''b'', 1), (''a'', 2)]) = {''a'', ''b'', ''python'' }
   \<and> make_shell [] [] 9 [(''python'', 0::nat), (''b'', 1), (''a'', 2)] = Inr 1"
  using C3_default_prefers_other_shells
    [of "[]" 9 "[]" "[(''python'', 0::nat), (''b'', 1), (''a'', 2)]" 0]
  by (auto simp: dict_keys_def)

text \<open>
  C4. The claim: with no explicit name, every discovered shell is ranked by its position
  in the preference list, names that are not in the list tie for last, and the shell
  ranked highest is picked. The code compares the registered name in lower case
  (line 255) with the entries of the list as they are, and the list it makes when none is
  configured (line 248) holds the registered names as they are. For the shells \<^verbatim>\<open>python\<close>
  and \<^verbatim>\<open>IPython\<close>, discovered in this order, that list is \<^verbatim>\<open>IPython\<close> alone; the shell
  \<^verbatim>\<open>IPython\<close>, at its first position, gets the key 1 of a name that is not in the list,
  as \<^verbatim>\<open>python\<close> does, and \<^verbatim>\<open>python\<close> is picked, against the comment of line 247. The
  claim's example, with lower-case names, comes out as it says.
\<close>

theorem C4_capitalised_name_ranked_as_absent:
  "filter (\<lambda>k. k \<noteq> ''python'') (dict_keys (find_all_shells [(''python'', g), (''IPython'', f)]))
     = [''IPython'']
   \<and> order [''IPython''] (''IPython'', f) = 1
   \<and> order [''IPython''] (''python'', g) = 1
   \<and> make_shell [] [] d (find_all_shells [(''python'', g), (''IPython'', f)]) = Inr g
   \<and> make_shell [] [''ipython'', ''bpython''] d
        (find_all_shells [(''python'', a), (''ipython'', b), (''bpython'', c)]) = Inr b"
  by (simp add: make_shell_def find_all_shells_def dict_set_def dict_keys_def lower_def
        lower_char_def order_def)

section \<open>Claims about the run\<close>

text \<open>
  C2. In a run that reached \<^verbatim>\<open>bootstrap\<close>, whose environment holds the closer, the
  closer is called exactly once, and its call is the last thing the run does: whatever
  the shell, the setup hook, the resolver and the startup file do, whether the shell was
  passed in or resolved, and whether or not the resolution fails.
\<close>

theorem C2_closer_called_exactly_once:
  "Bootstrapped \<in> set (snd (run w c shell)) \<and> bootstrap w = Inr e0
   \<and> dict_get e0 ''closer'' = Some cl
   \<longrightarrow> closer_calls (snd (run w c shell)) = [cl]
     \<and> last (snd (run w c shell)) = Closer_invoked cl"
proof
  assume a: "Bootstrapped \<in> set (snd (run w c shell)) \<and> bootstrap w = Inr e0
   \<and> dict_get e0 ''closer'' = Some cl"
  then obtain c1 where
    "snd (run w c shell) = Bootstrapped # snd (run_bootstrapped w c1 shell e0)"
    using run_reaches_bootstrap [of w c shell e0] by blast
  with a have t: "snd (run w c shell)
      = Bootstrapped # snd (run_try w (c1\<lparr>env := dict_del e0 ''closer'', closer := Some cl\<rparr>) shell)
        @ [Closer_invoked cl]"
    by (simp add: run_bootstrapped_trace)
  have "closer_calls (snd (run w c shell)) = [cl]"
    unfolding t using run_try_closer_calls [of w "c1\<lparr>env := dict_del e0 ''closer'', closer := Some cl\<rparr>" shell]
    by (simp add: closer_calls_def)
  moreover have "last (snd (run w c shell)) = Closer_invoked cl"
    unfolding t by simp
  ultimately show "closer_calls (snd (run w c shell)) = [cl]
     \<and> last (snd (run w c shell)) = Closer_invoked cl" by simp
qed

theorem C2_closer_called_exactly_once_witness:
  "Bootstrapped \<in> set (snd (run (example_world\<lparr>call_shell := (\<lambda>f e h. Some (OtherError ''shell failed''))\<rparr>)
                              example_command None))
   \<and> bootstrap (example_world\<lparr>call_shell := (\<lambda>f e h. Some (OtherError ''shell failed''))\<rparr>)
       = Inr [(''app'', 5), (''root'', 2), (''closer'', 9)]
   \<and> dict_get [(''app'', 5::nat), (''root'', 2), (''closer'', 9)] ''closer'' = Some 9
   \<and> fst (run (example_world\<lparr>call_shell := (\<lambda>f e h. Some (OtherError ''shell failed''))\<rparr>)
              example_command None) = Raised (OtherError ''shell failed'')
   \<and> closer_calls (snd (run (example_world\<lparr>call_shell := (\<lambda>f e h. Some (OtherError ''shell failed''))\<rparr>)
                            example_command None)) = [9]"
proof -
  let ?w = "example_world\<lparr>call_shell := (\<lambda>f e h. Some (OtherError ''shell failed''))\<rparr>"
  have h: "Bootstrapped \<in> set (snd (run ?w example_command None))
     \<and> bootstrap ?w = Inr [(''app'', 5), (''root'', 2), (''closer'', 9)]
     \<and> dict_get [(''app'', 5::nat), (''root'', 2), (''closer'', 9)] ''closer'' = Some 9"
    by code_simp
  have r: "fst (run ?w example_command None) = Raised (OtherError ''shell failed'')"
    by code_simp
  from C2_closer_called_exactly_once [THEN mp, OF h] h r show ?thesis by simp
qed

text \<open>
  C8, as the claim states it, fails: with \<^verbatim>\<open>setup = nosuch.module\<close> in the configuration
  and a resolver that raises for that path, the exception leaves \<^verbatim>\<open>run\<close>; nothing is
  printed and no exit code is returned.
\<close>

theorem C8_unresolved_setup_counterexample:
  "run (example_world\<lparr>get_settings := Inr [(''setup'', ''nosuch.module'')]\<rparr>)
       example_command None
     = (Raised (OtherError ''ImportError''), [Bootstrapped, Closer_invoked 9])"
  by code_simp

text \<open>
  C8, amended. When the setup value in effect (the \<^verbatim>\<open>--setup\<close> option if given, else
  the configured \<^verbatim>\<open>setup\<close>) is a non-empty dotted path that the resolver does not resolve,
  a run that reached \<^verbatim>\<open>bootstrap\<close> never calls the shell; and once the shell is resolved,
  the resolver's exception leaves \<^verbatim>\<open>run\<close> uncaught, after the closer has been called
  (whose own exception, if it raises, takes its place), with nothing printed.
\<close>

theorem C8_unresolved_setup_propagates:
  "dict_get e0 ''closer'' = Some cl
   \<and> (if truthy_str (args_setup c) then map_option Str (args_setup c) else setup_hook c)
       = Some (Str p)
   \<and> p \<noteq> [] \<and> resolve w p = Inl x
   \<longrightarrow> (\<forall>f e h. Shell_invoked f e h \<notin> set (snd (run_bootstrapped w c shell e0)))
     \<and> ((case shell of
            Some s \<Rightarrow> Inr s
          | None \<Rightarrow> make_shell (args_python_shell c) (preferred_shells c) (default_runner c)
                     (find_all_shells (iter_entry_points w))) = Inr sh
         \<longrightarrow> run_bootstrapped w c shell e0
               = (Raised (case call_closer w cl of Some y \<Rightarrow> y | None \<Rightarrow> x),
                  [Closer_invoked cl]))"
proof (intro impI conjI allI)
  fix f e h
  assume a: "dict_get e0 ''closer'' = Some cl
   \<and> (if truthy_str (args_setup c) then map_option Str (args_setup c) else setup_hook c)
       = Some (Str p)
   \<and> p \<noteq> [] \<and> resolve w p = Inl x"
  let ?c = "c\<lparr>env := dict_del e0 ''closer'', closer := Some cl\<rparr>"
  from a have s: "setup_env w ?c = Inl x" by (intro setup_env_unresolved [of _ p]) (auto split: if_splits)
  have "Shell_invoked f e h \<notin> set (snd (run_try w ?c shell))"
    by (simp add: run_try_def s out_def split: sum.splits exn.splits option.splits)
  with a show "Shell_invoked f e h \<notin> set (snd (run_bootstrapped w c shell e0))"
    by (simp add: run_bootstrapped_trace)
next
  assume a: "dict_get e0 ''closer'' = Some cl
   \<and> (if truthy_str (args_setup c) then map_option Str (args_setup c) else setup_hook c)
       = Some (Str p)
   \<and> p \<noteq> [] \<and> resolve w p = Inl x"
    and sh: "(case shell of
            Some s \<Rightarrow> Inr s
          | None \<Rightarrow> make_shell (args_python_shell c) (preferred_shells c) (default_runner c)
                     (find_all_shells (iter_entry_points w))) = Inr sh"
  let ?c = "c\<lparr>env := dict_del e0 ''closer'', closer := Some cl\<rparr>"
  from a have s: "setup_env w ?c = Inl x" by (intro setup_env_unresolved [of _ p]) (auto split: if_splits)
  from sh have "run_try w ?c shell = (Raised x, [])"
    by (cases shell) (simp_all add: run_try_def s)
  with a show "run_bootstrapped w c shell e0
               = (Raised (case call_closer w cl of Some y \<Rightarrow> y | None \<Rightarrow> x),
                  [Closer_invoked cl])"
    by (simp add: run_bootstrapped_def Let_def split: option.splits)
qed

theorem C8_unresolved_setup_propagates_witness:
  "dict_get [(''app'', 5::nat), (''root'', 2), (''closer'', 9)] ''closer'' = Some 9
   \<and> (if truthy_str (args_setup (example_command\<lparr>setup_hook := Some (Str ''nosuch.module'')\<rparr>))
       then map_option Str (args_setup (example_command\<lparr>setup_hook := Some (Str ''nosuch.module'')\<rparr>))
       else setup_hook (example_command\<lparr>setup_hook := Some (Str ''nosuch.module'')\<rparr>))
       = Some (Str ''nosuch.module'')
   \<and> ''nosuch.module'' \<noteq> []
   \<and> resolve example_world ''nosuch.module'' = Inl (OtherError ''ImportError'')
   \<and> run_bootstrapped example_world (example_command\<lparr>setup_hook := Some (Str ''nosuch.module'')\<rparr>)
        None [(''app'', 5), (''root'', 2), (''closer'', 9)]
       = (Raised (OtherError ''ImportError''), [Closer_invoked 9])"
proof -
  let ?c = "example_command\<lparr>setup_hook := Some (Str ''nosuch.module'')\<rparr>"
  have h: "dict_get [(''app'', 5::nat), (''root'', 2), (''closer'', 9)] ''closer'' = Some 9
   \<and> (if truthy_str (args_setup ?c) then map_option Str (args_setup ?c) else setup_hook ?c)
       = Some (Str ''nosuch.module'')
   \<and> ''nosuch.module'' \<noteq> []
   \<and> resolve example_world ''nosuch.module'' = Inl (OtherError ''ImportError'')"
    by code_simp
  have sh: "(case None of Some s \<Rightarrow> Inr s
       | None \<Rightarrow> make_shell (args_python_shell ?c) (preferred_shells ?c) (default_runner ?c)
                   (find_all_shells (iter_entry_points example_world))) = Inr 11"
    by code_simp
  have cl: "call_closer example_world 9 = None" by code_simp
  from C8_unresolved_setup_propagates [THEN mp, OF h, THEN conjunct2, THEN mp, OF sh]
  show ?thesis using h by (simp add: cl)
qed

section \<open>Claims about the environment builder\<close>

text \<open>
  C5, as the claim states it, fails: for a bootstrap environment with the keys \<^verbatim>\<open>app\<close>
  and \<^verbatim>\<open>root\<close> (and the closer), no custom objects and no hook, the Environment section
  lists five names, and the shell is given the five-line help text.
\<close>

theorem C5_two_key_environment_counterexample:
  "map fst (section_entries (str_help example_heap) (seed_help [(''app'', 5), (''root'', 2)]))
     = [''app'', ''registry'', ''request'', ''root'', ''root_factory'']
   \<and> run example_world example_command None
     = (Returned None,
        [Bootstrapped, Shell_invoked 11 [(''app'', 5), (''root'', 2)] default_help,
         Closer_invoked 9])"
  by code_simp

text \<open>
  C5, amended. Given an environment with exactly the keys \<^verbatim>\<open>app\<close> and \<^verbatim>\<open>root\<close>, no
  custom objects and no setup hook, the Environment section lists the five seeded names
  \<^verbatim>\<open>app\<close>, \<^verbatim>\<open>registry\<close>, \<^verbatim>\<open>request\<close>, \<^verbatim>\<open>root\<close>, \<^verbatim>\<open>root_factory\<close>, in this order,
  each with its fixed description, whether or not the environment binds the name; the
  help text is \<^const>\<open>default_help\<close>.
\<close>

theorem C5_help_lists_the_five_seeded_entries:
  "set (dict_keys (env c)) = {''app'', ''root''} \<and> distinct (dict_keys (env c))
   \<and> loaded_objects c = [] \<and> object_help c = []
   \<and> \<not> truthy_str (args_setup c) \<and> setup_hook c = None
   \<longrightarrow>
     map fst (section_entries (str_help (heap w)) (seed_help (env c)))
       = [''app'', ''registry'', ''request'', ''root'', ''root_factory'']
   \<and> setup_env w c =
       (case run_pystartup w (pystartup c) (env c) of
          Inl x \<Rightarrow> Inl x
        | Inr e3 \<Rightarrow>
            Inr (c\<lparr>env := e3, setup_hook := None, help_text := default_help\<rparr>, noop_manager))"
proof
  assume a: "set (dict_keys (env c)) = {''app'', ''root''} \<and> distinct (dict_keys (env c))
   \<and> loaded_objects c = [] \<and> object_help c = []
   \<and> \<not> truthy_str (args_setup c) \<and> setup_hook c = None"
  then have "(\<exists>x y. env c = [(''app'', x), (''root'', y)])
      \<or> (\<exists>x y. env c = [(''root'', y), (''app'', x)])"
    by (intro two_keys) simp_all
  then have h: "strip (gen_help (heap w) (seed_help (env c)) []) = default_help"
    and n: "map fst (section_entries (str_help (heap w)) (seed_help (env c)))
       = [''app'', ''registry'', ''request'', ''root'', ''root_factory'']"
    by (auto simp: seeded_help_text seeded_names)
  from a h have h': "strip (gen_help (heap w) (seed_help (env c)) (object_help c)) = default_help"
    by simp
  from a have se: "setup_env w c =
     (case run_pystartup w (pystartup c) (env c) of
        Inl x \<Rightarrow> Inl x
      | Inr e3 \<Rightarrow>
          Inr (c\<lparr>env := e3, setup_hook := None,
                 help_text := strip (gen_help (heap w) (seed_help (env c)) (object_help c))\<rparr>,
               noop_manager))"
    by (intro setup_env_no_hook) simp_all
  show "map fst (section_entries (str_help (heap w)) (seed_help (env c)))
       = [''app'', ''registry'', ''request'', ''root'', ''root_factory'']
   \<and> setup_env w c =
       (case run_pystartup w (pystartup c) (env c) of
          Inl x \<Rightarrow> Inl x
        | Inr e3 \<Rightarrow>
            Inr (c\<lparr>env := e3, setup_hook := None, help_text := default_help\<rparr>, noop_manager))"
    unfolding se h' using n by simp
qed

theorem C5_help_lists_the_five_seeded_entries_witness:
  "set (dict_keys (env (example_command\<lparr>env := [(''root'', 2), (''app'', 5)]\<rparr>))) = {''app'', ''root''}
   \<and> distinct (dict_keys (env (example_command\<lparr>env := [(''root'', 2), (''app'', 5)]\<rparr>)))
   \<and> setup_env example_world (example_command\<lparr>env := [(''root'', 2), (''app'', 5)]\<rparr>)
       = Inr (example_command\<lparr>env := [(''root'', 2), (''app'', 5)], setup_hook := None,
                              help_text := default_help\<rparr>, noop_manager)"
proof -
  let ?c = "example_command\<lparr>env := [(''root'', 2), (''app'', 5)]\<rparr>"
  have h: "set (dict_keys (env ?c)) = {''app'', ''root''} \<and> distinct (dict_keys (env ?c))
     \<and> loaded_objects ?c = [] \<and> object_help ?c = []
     \<and> \<not> truthy_str (args_setup ?c) \<and> setup_hook ?c = None"
    by (auto simp: example_command_def PShellCommand_def dict_keys_def truthy_str_def)
  have p: "run_pystartup example_world (pystartup ?c) (env ?c) = Inr [(''root'', 2), (''app'', 5)]"
    by (simp add: example_command_def PShellCommand_def run_pystartup_def)
  have e: "setup_env example_world ?c =
       (case run_pystartup example_world (pystartup ?c) (env ?c) of
          Inl x \<Rightarrow> Inl x
        | Inr e3 \<Rightarrow>
            Inr (?c\<lparr>env := e3, setup_hook := None, help_text := default_help\<rparr>, noop_manager))"
    using C5_help_lists_the_five_seeded_entries [THEN mp, OF h, THEN conjunct2] .
  show ?thesis using h unfolding e p by simp
qed




text \<open>
  C7, as the claim states it, fails: a setup hook binds \<^verbatim>\<open>root\<close> to an object whose
  documentation string is \<^verbatim>\<open>Root object.\<close>, a line feed and \<^verbatim>\<open>    Second line.\<close>, and
  \<^verbatim>\<open>extra\<close> to an object whose documentation string is empty. Whitespace-normalized, the
  first string has one space between its sentences; the help entry has five, since only
  the line feed is replaced. The empty documentation string is present, and the help
  entry is the object's representation.
\<close>

theorem C7_docstring_not_normalized_counterexample:
  "normalize_whitespace (''Root object.'' @ [CHR 0x0A] @ ''    Second line.'')
     = ''Root object. Second line.''
   \<and> obj_doc (example_heap 6) = Some (''Root object.'' @ [CHR 0x0A] @ ''    Second line.'')
   \<and> obj_doc (example_heap 13) = Some []
   \<and> run (example_world\<lparr>get_settings := Inr [(''setup'', ''mypkg.hook'')],
                          manager_of := (\<lambda>v. indented_hook)\<rparr>)
       example_command None
     = (Returned None,
        [Bootstrapped,
         Shell_invoked 11 [(''app'', 5), (''root'', 6), (''extra'', 13)] indented_help,
         Closer_invoked 9])"
  by code_simp

text \<open>
  C7, amended. When \<^verbatim>\<open>setup_env\<close> succeeds, the help text is rendered from the help
  entries as the loop of lines 190--195 leaves them, run on the environment \<open>e2\<close> that
  the setup hook made of the snapshot taken after the overlay. A key that \<open>e2\<close> binds
  to an object the snapshot does not bind it to has as entry the object's documentation
  string with every line feed replaced by one space and every other character kept, when
  that string is not empty, and the object itself, printed by \<^verbatim>\<open>str\<close>, when the string is
  empty or missing. A key whose binding is the snapshot's, or that \<open>e2\<close> does not have,
  keeps the entry it had before the hook.
\<close>

theorem C7_help_recomputed_after_hook:
  "setup_env w c = Inr (c', m)
   \<and> mgr_enter m (dict_update (env c) (loaded_objects c)) = Inr e2
   \<and> distinct (dict_keys e2)
   \<longrightarrow>
     help_text c'
       = strip (gen_help (heap w)
           (reconcile_help (dict_update (env c) (loaded_objects c)) (heap w) e2
              (drop_custom_help (loaded_objects c) (seed_help (env c))))
           (object_help c))
   \<and> (\<forall>k v. dict_get e2 k = Some v
              \<and> dict_get (dict_update (env c) (loaded_objects c)) k \<noteq> Some v \<longrightarrow>
          dict_get (reconcile_help (dict_update (env c) (loaded_objects c)) (heap w) e2
                      (drop_custom_help (loaded_objects c) (seed_help (env c)))) k
            = Some (case obj_doc (heap w v) of
                      Some d \<Rightarrow> if d \<noteq> [] then Text (replace_newlines d) else Object v
                    | None \<Rightarrow> Object v))
   \<and> (\<forall>k. dict_get e2 k = dict_get (dict_update (env c) (loaded_objects c)) k
            \<or> dict_get e2 k = None \<longrightarrow>
          dict_get (reconcile_help (dict_update (env c) (loaded_objects c)) (heap w) e2
                      (drop_custom_help (loaded_objects c) (seed_help (env c)))) k
            = dict_get (drop_custom_help (loaded_objects c) (seed_help (env c))) k)
   \<and> (\<forall>d. length (replace_newlines d) = length d
            \<and> (\<forall>i<length d. replace_newlines d ! i
                               = (if d ! i = CHR 0x0A then CHR '' '' else d ! i)))
   \<and> (\<forall>a s. str_help (heap w) (Object a) = obj_str (heap w a)
              \<and> str_help (heap w) (Text s) = s)"
proof (intro impI conjI allI)
  assume a: "setup_env w c = Inr (c', m)
   \<and> mgr_enter m (dict_update (env c) (loaded_objects c)) = Inr e2
   \<and> distinct (dict_keys e2)"
  then have s: "setup_env w c = Inr (c', m)" by simp
  from setup_env_Inr [OF s] obtain e where
    e: "mgr_enter m (dict_update (env c) (loaded_objects c)) = Inr e"
    and h: "help_text c' = strip (gen_help (heap w)
            (reconcile_help (dict_update (env c) (loaded_objects c)) (heap w) e
               (drop_custom_help (loaded_objects c) (seed_help (env c))))
            (object_help c))" by blast
  from e a have "e = e2" by simp
  with h show "help_text c'
       = strip (gen_help (heap w)
           (reconcile_help (dict_update (env c) (loaded_objects c)) (heap w) e2
              (drop_custom_help (loaded_objects c) (seed_help (env c))))
           (object_help c))" by simp
next
  fix k v
  assume a: "setup_env w c = Inr (c', m)
   \<and> mgr_enter m (dict_update (env c) (loaded_objects c)) = Inr e2
   \<and> distinct (dict_keys e2)"
    and kv: "dict_get e2 k = Some v
              \<and> dict_get (dict_update (env c) (loaded_objects c)) k \<noteq> Some v"
  then show "dict_get (reconcile_help (dict_update (env c) (loaded_objects c)) (heap w) e2
                      (drop_custom_help (loaded_objects c) (seed_help (env c)))) k
            = Some (case obj_doc (heap w v) of
                      Some d \<Rightarrow> if d \<noteq> [] then Text (replace_newlines d) else Object v
                    | None \<Rightarrow> Object v)"
    by (simp add: reconcile_help_get doc_help_def)
next
  fix k
  assume a: "setup_env w c = Inr (c', m)
   \<and> mgr_enter m (dict_update (env c) (loaded_objects c)) = Inr e2
   \<and> distinct (dict_keys e2)"
    and same: "dict_get e2 k = dict_get (dict_update (env c) (loaded_objects c)) k
            \<or> dict_get e2 k = None"
  then show "dict_get (reconcile_help (dict_update (env c) (loaded_objects c)) (heap w) e2
                      (drop_custom_help (loaded_objects c) (seed_help (env c)))) k
            = dict_get (drop_custom_help (loaded_objects c) (seed_help (env c))) k"
    by (auto simp: reconcile_help_get split: option.splits)
next
  fix d
  show "length (replace_newlines d) = length d" by (simp add: replace_newlines_def)
next
  fix d :: string and i
  assume "i < length d"
  then show "replace_newlines d ! i = (if d ! i = CHR 0x0A then CHR '' '' else d ! i)"
    by (simp add: replace_newlines_def)
next
  fix a s
  show "str_help (heap w) (Object a) = obj_str (heap w a)" by (simp add: str_help_def)
  show "str_help (heap w) (Text s) = s" by (simp add: str_help_def)
qed

theorem C7_help_recomputed_after_hook_witness:
  "\<exists>c' m.
     setup_env (example_world\<lparr>manager_of := (\<lambda>v. indented_hook)\<rparr>)
       (example_command\<lparr>env := [(''app'', 5), (''root'', 2)],
                         setup_hook := Some (Str ''mypkg.hook'')\<rparr>) = Inr (c', m)
     \<and> mgr_enter m [(''app'', 5), (''root'', 2)]
         = Inr [(''app'', 5), (''root'', 6), (''extra'', 13)]
     \<and> distinct (dict_keys [(''app'', 5::nat), (''root'', 6), (''extra'', 13)])
     \<and> help_text c' = indented_help
     \<and> dict_get (reconcile_help [(''app'', 5), (''root'', 2)] example_heap
                   [(''app'', 5), (''root'', 6), (''extra'', 13)]
                   (drop_custom_help [] (seed_help [(''app'', 5), (''root'', 2)]))) ''root''
         = Some (Text ''Root object.     Second line.'')"
proof -
  let ?w = "example_world\<lparr>manager_of := (\<lambda>v. indented_hook)\<rparr>"
  let ?c = "example_command\<lparr>env := [(''app'', 5), (''root'', 2)],
                            setup_hook := Some (Str ''mypkg.hook'')\<rparr>"
  let ?e2 = "[(''app'', 5::nat), (''root'', 6), (''extra'', 13)]"
  have p: "case setup_env ?w ?c of
             Inl x \<Rightarrow> False
           | Inr r \<Rightarrow> mgr_enter (snd r) (dict_update (env ?c) (loaded_objects ?c)) = Inr ?e2
                      \<and> help_text (fst r) = indented_help"
    by code_simp
  then obtain c' m where s: "setup_env ?w ?c = Inr (c', m)"
    and e: "mgr_enter m (dict_update (env ?c) (loaded_objects ?c)) = Inr ?e2"
    and t: "help_text c' = indented_help"
    by (cases "setup_env ?w ?c") (auto split: prod.splits)
  have d: "distinct (dict_keys ?e2)" by (simp add: dict_keys_def)
  have o: "dict_update (env ?c) (loaded_objects ?c) = [(''app'', 5), (''root'', 2)]"
    by code_simp
  have l: "loaded_objects ?c = []" by code_simp
  have n: "env ?c = [(''app'', 5), (''root'', 2)]" by simp
  have hp: "heap ?w = example_heap" by (simp add: example_world_def)
  have kv: "dict_get ?e2 ''root'' = Some 6
      \<and> dict_get (dict_update (env ?c) (loaded_objects ?c)) ''root'' \<noteq> Some 6"
    unfolding o by (simp add: dict_get_def)
  note r = C7_help_recomputed_after_hook [THEN mp, OF conjI [OF s conjI [OF e d]]]
  have "dict_get (reconcile_help (dict_update (env ?c) (loaded_objects ?c)) (heap ?w) ?e2
                      (drop_custom_help (loaded_objects ?c) (seed_help (env ?c)))) ''root''
            = Some (case obj_doc (heap ?w 6) of
                      Some d \<Rightarrow> if d \<noteq> [] then Text (replace_newlines d) else Object 6
                    | None \<Rightarrow> Object 6)"
    using r [THEN conjunct2, THEN conjunct1, THEN spec, THEN spec, THEN mp, OF kv] .
  then have g: "dict_get (reconcile_help [(''app'', 5), (''root'', 2)] example_heap ?e2
                   (drop_custom_help [] (seed_help [(''app'', 5), (''root'', 2)]))) ''root''
         = Some (Text ''Root object.     Second line.'')"
    unfolding o l n hp by (simp add: example_heap_def replace_newlines_def dict_update_Nil)
  from s e t d g show ?thesis unfolding o by (intro exI conjI)
qed

text \<open>
  C9. If the startup path names no file, the startup step returns the environment as it
  is and \<^verbatim>\<open>setup_env\<close> yields what it yields with no startup path, errors included. If
  the file exists, and reading it and \<^verbatim>\<open>exec\<close> succeed, the step returns the environment
  that \<^verbatim>\<open>exec\<close> left, without any \<^verbatim>\<open>__builtins__\<close> binding; and a \<^verbatim>\<open>setup_env\<close> that
  succeeds with such a file has run the file's contents against the environment as the
  setup hook left it.
\<close>

theorem C9_startup_file:
  "(pystartup c = Some p \<and> \<not> isfile w p \<longrightarrow>
      (\<forall>e. run_pystartup w (pystartup c) e = Inr e)
      \<and> setup_env w c
          = map_sum (\<lambda>x. x) (\<lambda>r. ((fst r)\<lparr>pystartup := Some p\<rparr>, snd r))
              (setup_env w (c\<lparr>pystartup := None\<rparr>)))
   \<and> (pystartup c = Some p \<and> p \<noteq> [] \<and> isfile w p
        \<and> read_file w p = Inr code \<and> exec w code e = Inr e' \<longrightarrow>
      run_pystartup w (pystartup c) e = Inr (dict_del e' ''__builtins__'')
      \<and> ''__builtins__'' \<notin> set (dict_keys (dict_del e' ''__builtins__'')))
   \<and> (pystartup c = Some p \<and> p \<noteq> [] \<and> isfile w p \<and> setup_env w c = Inr (c', m) \<longrightarrow>
      (\<exists>code e2 e3. mgr_enter m (dict_update (env c) (loaded_objects c)) = Inr e2
          \<and> read_file w p = Inr code \<and> exec w code e2 = Inr e3
          \<and> env c' = dict_del e3 ''__builtins__''
          \<and> ''__builtins__'' \<notin> set (dict_keys (env c'))))"
proof (intro conjI impI)
  assume a: "pystartup c = Some p \<and> \<not> isfile w p"
  then show "\<forall>e. run_pystartup w (pystartup c) e = Inr e"
    by (simp add: run_pystartup_absent)
  from a show "setup_env w c
          = map_sum (\<lambda>x. x) (\<lambda>r. ((fst r)\<lparr>pystartup := Some p\<rparr>, snd r))
              (setup_env w (c\<lparr>pystartup := None\<rparr>))"
    by (intro setup_env_startup_absent) simp_all
next
  assume a: "pystartup c = Some p \<and> p \<noteq> [] \<and> isfile w p
        \<and> read_file w p = Inr code \<and> exec w code e = Inr e'"
  then show "run_pystartup w (pystartup c) e = Inr (dict_del e' ''__builtins__'')"
    by (simp add: run_pystartup_present)
  show "''__builtins__'' \<notin> set (dict_keys (dict_del e' ''__builtins__''))"
    by (rule no_builtins)
next
  assume a: "pystartup c = Some p \<and> p \<noteq> [] \<and> isfile w p \<and> setup_env w c = Inr (c', m)"
  then have "setup_env w c = Inr (c', m)" by simp
  from setup_env_Inr [OF this] obtain e2 where
    e2: "mgr_enter m (dict_update (env c) (loaded_objects c)) = Inr e2"
    and r: "run_pystartup w (pystartup c) e2 = Inr (env c')" by blast
  from r a have "run_pystartup w (Some p) e2 = Inr (env c')" by simp
  from run_pystartup_Inr [OF this] a obtain code e3 where
    "read_file w p = Inr code" "exec w code e2 = Inr e3" "env c' = dict_del e3 ''__builtins__''"
    by blast
  with e2 show "\<exists>code e2 e3. mgr_enter m (dict_update (env c) (loaded_objects c)) = Inr e2
          \<and> read_file w p = Inr code \<and> exec w code e2 = Inr e3
          \<and> env c' = dict_del e3 ''__builtins__''
          \<and> ''__builtins__'' \<notin> set (dict_keys (env c'))"
    using no_builtins by metis
qed

theorem C9_startup_file_witness:
  "pystartup (example_command\<lparr>pystartup := Some ''/nowhere/startup.py''\<rparr>) = Some ''/nowhere/startup.py''
   \<and> \<not> isfile example_world ''/nowhere/startup.py''
   \<and> run_pystartup example_world (Some ''/nowhere/startup.py'') [(''app'', 5)] = Inr [(''app'', 5)]
   \<and> isfile example_world ''/home/user/.pythonrc''
   \<and> read_file example_world ''/home/user/.pythonrc'' = Inr ''import os''
   \<and> exec example_world ''import os'' [(''app'', 5)] = Inr [(''app'', 5), (''__builtins__'', 4)]
   \<and> run_pystartup example_world (Some ''/home/user/.pythonrc'') [(''app'', 5)] = Inr [(''app'', 5)]
   \<and> (\<exists>c' m. setup_env example_world
                 (example_command\<lparr>pystartup := Some ''/home/user/.pythonrc'', env := [(''app'', 5)]\<rparr>)
               = Inr (c', m)
            \<and> env c' = [(''app'', 5)])"
proof -
  let ?c = "example_command\<lparr>pystartup := Some ''/nowhere/startup.py''\<rparr>"
  let ?d = "example_command\<lparr>pystartup := Some ''/home/user/.pythonrc''\<rparr>"
  let ?e = "example_command\<lparr>pystartup := Some ''/home/user/.pythonrc'', env := [(''app'', 5)]\<rparr>"
  have h1: "pystartup ?c = Some ''/nowhere/startup.py'' \<and> \<not> isfile example_world ''/nowhere/startup.py''"
    by code_simp
  have h2: "pystartup ?d = Some ''/home/user/.pythonrc'' \<and> ''/home/user/.pythonrc'' \<noteq> []
      \<and> isfile example_world ''/home/user/.pythonrc''
      \<and> read_file example_world ''/home/user/.pythonrc'' = Inr ''import os''
      \<and> exec example_world ''import os'' [(''app'', 5)] = Inr [(''app'', 5), (''__builtins__'', 4)]"
    by code_simp
  have a: "run_pystartup example_world (pystartup ?c) [(''app'', 5)] = Inr [(''app'', 5)]"
    using C9_startup_file [THEN conjunct1, THEN mp, OF h1, THEN conjunct1, THEN spec] .
  have b: "run_pystartup example_world (pystartup ?d) [(''app'', 5)]
        = Inr (dict_del [(''app'', 5), (''__builtins__'', 4)] ''__builtins__'')"
    using C9_startup_file [THEN conjunct2, THEN conjunct1, THEN mp, OF h2, THEN conjunct1] .
  have d: "dict_del [(''app'', 5::nat), (''__builtins__'', 4)] ''__builtins__'' = [(''app'', 5)]"
    by (simp add: dict_del_def)
  obtain c' m where s: "setup_env example_world ?e = Inr (c', m)"
    by (cases "setup_env example_world ?e")
       (simp_all add: setup_env_def resolve_setup_def make_contextmanager_def noop_manager_def
          run_pystartup_def example_world_def example_command_def PShellCommand_def
          truthy_str_def Let_def)
  have h3: "pystartup ?e = Some ''/home/user/.pythonrc'' \<and> ''/home/user/.pythonrc'' \<noteq> []
      \<and> isfile example_world ''/home/user/.pythonrc'' \<and> setup_env example_world ?e = Inr (c', m)"
    using s by (simp add: example_world_def)
  from C9_startup_file [THEN conjunct2, THEN conjunct2, THEN mp, OF h3]
  obtain code e2 e3 where m: "mgr_enter m (dict_update (env ?e) (loaded_objects ?e)) = Inr e2"
    and "read_file example_world ''/home/user/.pythonrc'' = Inr code"
    and x: "exec example_world code e2 = Inr e3"
    and v: "env c' = dict_del e3 ''__builtins__''"
    by (elim exE conjE)
  from s have "m = noop_manager"
    by (simp add: setup_env_def resolve_setup_def make_contextmanager_def
          run_pystartup_def example_world_def example_command_def PShellCommand_def
          truthy_str_def Let_def split: sum.splits if_splits)
  with m have "e2 = [(''app'', 5)]"
    by (simp add: noop_manager_def dict_update_Nil example_command_def PShellCommand_def)
  with x have "e3 = [(''app'', 5), (''__builtins__'', 4)]"
    by (simp add: example_world_def dict_set_def)
  with v d have "env c' = [(''app'', 5)]" by simp
  with s have t: "\<exists>c' m. setup_env example_world ?e = Inr (c', m) \<and> env c' = [(''app'', 5)]"
    by (intro exI conjI)
  from a b d h1 h2 t show ?thesis by simp
qed

section \<open>Claims about the configuration\<close>




end
